theory Spec2Isabelle
  imports Main "HOL-Library.Sublist" "HOL-Library.AList"
begin

section \<open>Python values, strings and dictionaries\<close>

text \<open>
  The client passes around values decoded from JSON documents and values handed in by
  the caller. Both are Python values of the JSON shapes: \<open>None\<close>, booleans, integers,
  strings, lists and dictionaries. A dictionary keeps its keys in insertion order.
  Floating point numbers are left out.
\<close>

datatype json =
    JNull
  | JBool bool
  | JInt int
  | JStr string
  | JList "json list"
  | JObj "(string \<times> json) list"

text \<open>
  A message built by \<open>template.format(args)\<close> is kept as the template and its
  arguments, in order.
\<close>

datatype message = Format string "json list"

datatype error =
    RestAPIError message
  | ServingNotFound message
  | ValueError message
  | KeyError string
  | TypeError
  | JSONDecodeError

text \<open>Sequencing of calls that may raise: the first exception ends the computation.\<close>

definition bind_err :: "error + 'a \<Rightarrow> ('a \<Rightarrow> error + 'b) \<Rightarrow> error + 'b" where
  "bind_err r f = (case r of Inl e \<Rightarrow> Inl e | Inr a \<Rightarrow> f a)"

text \<open>\<open>d[k] = v\<close> on a dictionary: an existing key keeps its place, a new one goes last.\<close>

definition dict_set :: "string \<Rightarrow> 'v \<Rightarrow> (string \<times> 'v) list \<Rightarrow> (string \<times> 'v) list" where
  "dict_set k v d = AList.update k v d"

text \<open>\<open>sep.join(xs)\<close>\<close>

fun str_join :: "string \<Rightarrow> string list \<Rightarrow> string" where
  "str_join sep [] = []"
| "str_join sep [x] = x"
| "str_join sep (x # y # ys) = x @ sep @ str_join sep (y # ys)"

text \<open>
  \<open>s.replace(old, new)\<close>: the occurrences of \<open>old\<close> are found from left to right and do
  not overlap; an empty \<open>old\<close> matches before every character and at the end.
\<close>

function str_replace :: "string \<Rightarrow> string \<Rightarrow> string \<Rightarrow> string" where
  "str_replace old new [] = (if old = [] then new else [])"
| "str_replace old new (c # cs) =
     (if old = [] then new @ c # str_replace old new cs
      else if prefix old (c # cs) then new @ str_replace old new (drop (length old) (c # cs))
      else c # str_replace old new cs)"
  by pat_completeness auto
termination
  by (relation "measure (\<lambda>(old, new, s). length s)") auto

text \<open>
  \<open>s.split(sep)\<close> for a non-empty separator: the fields between the occurrences of
  \<open>sep\<close>, found from left to right. The first argument of \<open>split_fields\<close> is the field
  read so far.
\<close>

function split_fields :: "string \<Rightarrow> string \<Rightarrow> string \<Rightarrow> string list" where
  "split_fields cur sep [] = [cur]"
| "split_fields cur sep (c # cs) =
     (if sep \<noteq> [] \<and> prefix sep (c # cs)
      then cur # split_fields [] sep (drop (length sep) (c # cs))
      else split_fields (cur @ [c]) sep cs)"
  by pat_completeness auto
termination
  by (relation "measure (\<lambda>(cur, sep, s). length s)") auto

text \<open>Python raises \<open>ValueError\<close> on an empty separator.\<close>

definition str_split :: "string \<Rightarrow> string \<Rightarrow> error + string list" where
  "str_split s sep =
     (if sep = [] then Inl (ValueError (Format ''empty separator'' []))
      else Inr (split_fields [] sep s))"

section \<open>constants.py\<close>

definition KAFKA_BROKERS_ENV_VAR :: string where
  "KAFKA_BROKERS_ENV_VAR = ''KAFKA_BROKERS''"

definition SSL_TRUSTSTORE_LOCATION_CONFIG :: string where
  "SSL_TRUSTSTORE_LOCATION_CONFIG = ''ssl.truststore.location''"

definition SSL_TRUSTSTORE_PASSWORD_CONFIG :: string where
  "SSL_TRUSTSTORE_PASSWORD_CONFIG = ''ssl.truststore.password''"

definition SSL_KEYSTORE_LOCATION_CONFIG :: string where
  "SSL_KEYSTORE_LOCATION_CONFIG = ''ssl.keystore.location''"

definition SSL_KEYSTORE_PASSWORD_CONFIG :: string where
  "SSL_KEYSTORE_PASSWORD_CONFIG = ''ssl.keystore.password''"

definition SSL_KEY_PASSWORD_CONFIG :: string where
  "SSL_KEY_PASSWORD_CONFIG = ''ssl.key.password''"

definition SECURITY_PROTOCOL_CONFIG :: string where
  "SECURITY_PROTOCOL_CONFIG = ''security.protocol''"

definition BOOTSTRAP_SERVERS_CONFIG :: string where
  "BOOTSTRAP_SERVERS_CONFIG = ''bootstrap.servers''"

definition KEY_SERIALIZER_CLASS_CONFIG :: string where
  "KEY_SERIALIZER_CLASS_CONFIG = ''key.serializer''"

definition VALUE_SERIALIZER_CLASS_CONFIG :: string where
  "VALUE_SERIALIZER_CLASS_CONFIG = ''value.serializer''"

definition JSON_SCHEMA_TOPICNAME :: string where
  "JSON_SCHEMA_TOPICNAME = ''topicName''"

definition JSON_SCHEMA_VERSION :: string where
  "JSON_SCHEMA_VERSION = ''version''"

definition HOPSWORKS_REST_RESOURCE :: string where
  "HOPSWORKS_REST_RESOURCE = ''hopsworks-api/api''"

definition HOPSWORKS_REST_APPSERVICE :: string where
  "HOPSWORKS_REST_APPSERVICE = ''appservice''"

section \<open>kafka.py\<close>

subsection \<open>Broker endpoints\<close>

text \<open>
  \<open>os.environ\<close> is a map from variable names to values; reading a variable that is not
  set raises \<open>KeyError\<close>.
\<close>

definition get_broker_endpoints :: "(string \<rightharpoonup> string) \<Rightarrow> error + string" where
  "get_broker_endpoints environ =
     (case environ KAFKA_BROKERS_ENV_VAR of
        None \<Rightarrow> Inl (KeyError KAFKA_BROKERS_ENV_VAR)
      | Some v \<Rightarrow> Inr (str_replace ''INTERNAL://'' '''' v))"

definition get_broker_endpoints_list :: "(string \<rightharpoonup> string) \<Rightarrow> error + string list" where
  "get_broker_endpoints_list environ =
     bind_err (get_broker_endpoints environ) (\<lambda>s. str_split s '','')"

subsection \<open>Split and join\<close>

lemma split_fields_not_Nil: "split_fields cur sep s \<noteq> []"
  by (induction cur sep s rule: split_fields.induct) auto

lemma str_join_Cons: "xs \<noteq> [] \<Longrightarrow> str_join sep (x # xs) = x @ sep @ str_join sep xs"
  by (cases xs) auto

lemma prefix_take_drop: "prefix sep s \<Longrightarrow> sep @ drop (length sep) s = s"
  by (auto simp: prefix_def)

lemma str_join_split_fields: "str_join sep (split_fields cur sep s) = cur @ s"
proof (induction cur sep s rule: split_fields.induct)
  case (1 cur sep)
  show ?case by simp
next
  case (2 cur sep c cs)
  show ?case
  proof (cases "sep \<noteq> [] \<and> prefix sep (c # cs)")
    case True
    then have "str_join sep (split_fields cur sep (c # cs)) =
        cur @ sep @ str_join sep (split_fields [] sep (drop (length sep) (c # cs)))"
      by (simp add: str_join_Cons split_fields_not_Nil)
    also have "\<dots> = cur @ sep @ drop (length sep) (c # cs)"
      using 2(1) True by simp
    also have "\<dots> = cur @ c # cs"
      using True prefix_take_drop [of sep "c # cs"] by simp
    finally show ?thesis .
  next
    case False
    then show ?thesis using 2(2) by auto
  qed
qed

text \<open>
  C8. Whatever the value of the environment variable \<open>KAFKA_BROKERS\<close>, the list returned
  by \<open>get_broker_endpoints_list()\<close> is not empty, and joining it with \<open>,\<close> gives back the
  string returned by \<open>get_broker_endpoints()\<close>.
\<close>

theorem C8_split_join_roundtrip:
  assumes "environ KAFKA_BROKERS_ENV_VAR = Some v"
  shows "\<exists>xs. get_broker_endpoints_list environ = Inr xs \<and> xs \<noteq> [] \<and>
           get_broker_endpoints environ = Inr (str_join '','' xs)"
  using assms
  by (simp add: get_broker_endpoints_list_def get_broker_endpoints_def bind_err_def
      str_split_def split_fields_not_Nil str_join_split_fields)

theorem C8_split_join_roundtrip_witness:
  "get_broker_endpoints_list
     [KAFKA_BROKERS_ENV_VAR \<mapsto> ''INTERNAL://10.0.2.15:9091,INTERNAL://10.0.2.16:9091''] =
     Inr [''10.0.2.15:9091'', ''10.0.2.16:9091''] \<and>
   get_broker_endpoints
     [KAFKA_BROKERS_ENV_VAR \<mapsto> ''INTERNAL://10.0.2.15:9091,INTERNAL://10.0.2.16:9091''] =
     Inr (str_join '','' [''10.0.2.15:9091'', ''10.0.2.16:9091''])"
  using C8_split_join_roundtrip
    [of "[KAFKA_BROKERS_ENV_VAR \<mapsto> ''INTERNAL://10.0.2.15:9091,INTERNAL://10.0.2.16:9091'']"
        "''INTERNAL://10.0.2.15:9091,INTERNAL://10.0.2.16:9091''"]
  by (simp add: get_broker_endpoints_list_def get_broker_endpoints_def bind_err_def
      str_split_def)

subsection \<open>Default configuration\<close>

text \<open>
  The functions of the \<open>tls\<close> module are not part of the sources at hand. The values
  they return are parameters of the model.
\<close>

record tls =
  get_trust_store :: string
  get_trust_store_pwd :: string
  get_key_store :: string
  get_key_store_pwd :: string

definition get_kafka_default_config ::
  "(string \<rightharpoonup> string) \<Rightarrow> tls \<Rightarrow> error + (string \<times> string) list" where
  "get_kafka_default_config environ t =
     bind_err (get_broker_endpoints environ) (\<lambda>brokers.
       let default_config = [];
           default_config = dict_set BOOTSTRAP_SERVERS_CONFIG brokers default_config;
           default_config = dict_set KEY_SERIALIZER_CLASS_CONFIG
             ''org.apache.kafka.common.serialization.StringSerializer'' default_config;
           default_config = dict_set VALUE_SERIALIZER_CLASS_CONFIG
             ''org.apache.kafka.common.serialization.ByteArraySerializer'' default_config;
           default_config = dict_set SECURITY_PROTOCOL_CONFIG ''SSL'' default_config;
           default_config = dict_set SSL_TRUSTSTORE_LOCATION_CONFIG (get_trust_store t) default_config;
           default_config = dict_set SSL_TRUSTSTORE_PASSWORD_CONFIG (get_trust_store_pwd t) default_config;
           default_config = dict_set SSL_KEYSTORE_LOCATION_CONFIG (get_key_store t) default_config;
           default_config = dict_set SSL_KEYSTORE_PASSWORD_CONFIG (get_key_store_pwd t) default_config;
           default_config = dict_set SSL_KEY_PASSWORD_CONFIG (get_key_store_pwd t) default_config
       in Inr default_config)"

lemmas kafka_config_keys =
  BOOTSTRAP_SERVERS_CONFIG_def KEY_SERIALIZER_CLASS_CONFIG_def VALUE_SERIALIZER_CLASS_CONFIG_def
  SECURITY_PROTOCOL_CONFIG_def SSL_TRUSTSTORE_LOCATION_CONFIG_def
  SSL_TRUSTSTORE_PASSWORD_CONFIG_def SSL_KEYSTORE_LOCATION_CONFIG_def
  SSL_KEYSTORE_PASSWORD_CONFIG_def SSL_KEY_PASSWORD_CONFIG_def

definition sample_environ :: "string \<rightharpoonup> string" where
  "sample_environ = [KAFKA_BROKERS_ENV_VAR \<mapsto> ''INTERNAL://10.0.2.15:9091'']"

definition sample_tls :: tls where
  "sample_tls = \<lparr>get_trust_store = ''t_certificate'', get_trust_store_pwd = ''secret'',
                 get_key_store = ''k_certificate'', get_key_store_pwd = ''secret''\<rparr>"

text \<open>
  C7, as stated, gives the dictionary eight entries. The code stores nine: the nine keys
  are pairwise different, and with \<open>KAFKA_BROKERS\<close> set to \<open>INTERNAL://10.0.2.15:9091\<close>
  the dictionary returned has nine entries.
\<close>

theorem C7_eight_entries_counterexample:
  "map_sum id length (get_kafka_default_config sample_environ sample_tls) = Inr 9"
  by (simp add: get_kafka_default_config_def get_broker_endpoints_def bind_err_def
      sample_environ_def sample_tls_def dict_set_def kafka_config_keys)

text \<open>
  C7, amended. Whenever the environment variable \<open>KAFKA_BROKERS\<close> is set,
  \<open>get_kafka_default_config()\<close> returns a dictionary with exactly nine entries, in this
  order: \<open>bootstrap.servers\<close> with the value of \<open>KAFKA_BROKERS\<close> after
  \<open>replace("INTERNAL://", "")\<close>, \<open>key.serializer\<close> with the StringSerializer class name,
  \<open>value.serializer\<close> with the ByteArraySerializer class name, \<open>security.protocol\<close> with
  \<open>SSL\<close>, the trust store location and password, the key store location and password,
  and \<open>ssl.key.password\<close> with the key store password.
\<close>

theorem C7_default_config_nine_entries:
  assumes "environ KAFKA_BROKERS_ENV_VAR = Some v"
  shows "\<exists>d. get_kafka_default_config environ t = Inr d \<and> length d = 9 \<and>
    d = [(''bootstrap.servers'', str_replace ''INTERNAL://'' '''' v),
         (''key.serializer'', ''org.apache.kafka.common.serialization.StringSerializer''),
         (''value.serializer'', ''org.apache.kafka.common.serialization.ByteArraySerializer''),
         (''security.protocol'', ''SSL''),
         (''ssl.truststore.location'', get_trust_store t),
         (''ssl.truststore.password'', get_trust_store_pwd t),
         (''ssl.keystore.location'', get_key_store t),
         (''ssl.keystore.password'', get_key_store_pwd t),
         (''ssl.key.password'', get_key_store_pwd t)]"
  using assms
  by (simp add: get_kafka_default_config_def get_broker_endpoints_def bind_err_def
      dict_set_def kafka_config_keys)

theorem C7_default_config_nine_entries_witness:
  "get_kafka_default_config sample_environ sample_tls =
     Inr [(''bootstrap.servers'', ''10.0.2.15:9091''),
          (''key.serializer'', ''org.apache.kafka.common.serialization.StringSerializer''),
          (''value.serializer'', ''org.apache.kafka.common.serialization.ByteArraySerializer''),
          (''security.protocol'', ''SSL''),
          (''ssl.truststore.location'', ''t_certificate''),
          (''ssl.truststore.password'', ''secret''),
          (''ssl.keystore.location'', ''k_certificate''),
          (''ssl.keystore.password'', ''secret''),
          (''ssl.key.password'', ''secret'')]"
  using C7_default_config_nine_entries
    [of sample_environ "''INTERNAL://10.0.2.15:9091''" sample_tls]
  by (simp add: sample_environ_def sample_tls_def)

subsection \<open>Schema lookup\<close>

text \<open>
  \<open>get_schema\<close> talks to the backend through a connection obtained from the \<open>rest_api\<close>
  module, which is not part of the sources at hand. What that module supplies is a
  parameter of the model: the dictionary prepared by
  \<open>rest_prepare_rest_appservice_json_request()\<close>, and the backend's answer to a request
  sent over the connection. An answer has a status and a body; \<open>json.loads\<close> is a
  parameter as well, returning \<open>None\<close> for a body that is not a JSON document, where
  Python raises. The body of a request is kept as the document that \<open>json.dumps\<close>
  serialises. Output written by \<open>print\<close> is not modelled.
\<close>

record http_request =
  https :: bool
  http_method :: string
  resource_url :: string
  http_body :: json
  http_headers :: "(string \<times> string) list"

record http_response =
  status :: int
  resp_body :: string

record rest_api =
  rest_prepare_rest_appservice_json_request :: "(string \<times> json) list"
  getresponse :: "http_request \<Rightarrow> http_response"
  json_loads :: "string \<Rightarrow> json option"

text \<open>
  The request that \<open>get_schema\<close> builds. An omitted \<open>version_id\<close> is \<open>None\<close> here and
  takes the default 1.
\<close>

definition get_schema_request :: "rest_api \<Rightarrow> string \<Rightarrow> json option \<Rightarrow> http_request" where
  "get_schema_request api topic version_opt =
     (let version_id = (case version_opt of None \<Rightarrow> JInt 1 | Some v \<Rightarrow> v);
          json_contents = rest_prepare_rest_appservice_json_request api;
          json_contents = dict_set JSON_SCHEMA_TOPICNAME (JStr topic) json_contents;
          json_contents = dict_set JSON_SCHEMA_VERSION version_id json_contents;
          json_embeddable = JObj json_contents;
          headers = [(''Content-type'', ''application/json'')];
          method = ''POST'';
          resource = ''schema'';
          resource_url = HOPSWORKS_REST_RESOURCE @ ''/'' @ HOPSWORKS_REST_APPSERVICE @ ''/'' @ resource
      in \<lparr>https = True, http_method = method, resource_url = resource_url,
           http_body = json_embeddable, http_headers = headers\<rparr>)"

text \<open>
  \<open>get_schema\<close> takes the requests sent so far and returns them extended, next to its
  result.
\<close>

definition get_schema ::
  "rest_api \<Rightarrow> string \<Rightarrow> json option \<Rightarrow> http_request list \<Rightarrow> (error + json) \<times> http_request list" where
  "get_schema api topic version_opt sent =
     (let req = get_schema_request api topic version_opt;
          response = getresponse api req;
          resp_body = resp_body response
      in (case json_loads api resp_body of
            None \<Rightarrow> Inl JSONDecodeError
          | Some response_object \<Rightarrow> Inr response_object,
          sent @ [req]))"

text \<open>Reading a field of a JSON body.\<close>

definition json_field :: "json \<Rightarrow> string \<Rightarrow> json option" where
  "json_field j k = (case j of JObj d \<Rightarrow> map_of d k | _ \<Rightarrow> None)"

definition sample_schema_api :: rest_api where
  "sample_schema_api =
     \<lparr>rest_prepare_rest_appservice_json_request =
        [(''keyStorePwd'', JStr ''secret''), (''keyStore'', JStr ''a2V5c3RvcmU='')],
      getresponse = (\<lambda>req. \<lparr>status = 200, resp_body = ''{}''\<rparr>),
      json_loads = (\<lambda>s. if s = ''{}'' then Some (JObj []) else None)\<rparr>"

text \<open>
  A backend that does not know the topic: it answers 404 with an error document, which
  \<open>json.loads\<close> decodes.
\<close>

definition failing_schema_api :: rest_api where
  "failing_schema_api =
     \<lparr>rest_prepare_rest_appservice_json_request =
        [(''keyStorePwd'', JStr ''secret''), (''keyStore'', JStr ''a2V5c3RvcmU='')],
      getresponse = (\<lambda>req. \<lparr>status = 404, resp_body = ''{errorMsg: Topic not found}''\<rparr>),
      json_loads = (\<lambda>s. if s = ''{errorMsg: Topic not found}''
                          then Some (JObj [(''errorMsg'', JStr ''Topic not found'')]) else None)\<rparr>"

lemma map_of_dict_set_same: "map_of (dict_set k v d) k = Some v"
  by (simp add: dict_set_def update_conv')

lemma map_of_dict_set_other: "k' \<noteq> k \<Longrightarrow> map_of (dict_set k v d) k' = map_of d k'"
  by (simp add: dict_set_def update_conv')

text \<open>
  C6. For every topic and version, \<open>get_schema(topic, version_id)\<close> sends exactly one
  request: an HTTPS POST to \<open>hopsworks-api/api/appservice/schema\<close> with the header
  \<open>Content-type: application/json\<close> and a JSON body whose field \<open>topicName\<close> is the topic
  and whose field \<open>version\<close> is the version (1 when the version is omitted). Its result is
  the body of the answer to that request, parsed as JSON.
\<close>

theorem C6_get_schema_request_and_result:
  "\<exists>req. snd (get_schema api topic version_opt sent) = sent @ [req] \<and>
     https req = True \<and> http_method req = ''POST'' \<and>
     resource_url req = ''hopsworks-api/api'' @ ''/'' @ ''appservice'' @ ''/'' @ ''schema'' \<and>
     http_headers req = [(''Content-type'', ''application/json'')] \<and>
     json_field (http_body req) ''topicName'' = Some (JStr topic) \<and>
     json_field (http_body req) ''version'' =
       Some (case version_opt of None \<Rightarrow> JInt 1 | Some v \<Rightarrow> v) \<and>
     fst (get_schema api topic version_opt sent) =
       (case json_loads api (resp_body (getresponse api req)) of
          None \<Rightarrow> Inl JSONDecodeError | Some response_object \<Rightarrow> Inr response_object)"
  by (simp add: get_schema_def get_schema_request_def Let_def json_field_def
      map_of_dict_set_same map_of_dict_set_other
      JSON_SCHEMA_TOPICNAME_def JSON_SCHEMA_VERSION_def
      HOPSWORKS_REST_RESOURCE_def HOPSWORKS_REST_APPSERVICE_def)

theorem C6_get_schema_request_and_result_witness:
  "get_schema sample_schema_api ''test_topic'' None [] =
     (Inr (JObj []),
      [\<lparr>https = True, http_method = ''POST'',
        resource_url = ''hopsworks-api/api/appservice/schema'',
        http_body = JObj [(''keyStorePwd'', JStr ''secret''), (''keyStore'', JStr ''a2V5c3RvcmU=''),
                          (''topicName'', JStr ''test_topic''), (''version'', JInt 1)],
        http_headers = [(''Content-type'', ''application/json'')]\<rparr>])"
  using C6_get_schema_request_and_result [of sample_schema_api "''test_topic''" None "[]"]
  by (simp add: get_schema_def get_schema_request_def Let_def sample_schema_api_def
      dict_set_def JSON_SCHEMA_TOPICNAME_def JSON_SCHEMA_VERSION_def
      HOPSWORKS_REST_RESOURCE_def HOPSWORKS_REST_APPSERVICE_def)

text \<open>
  C5 says that \<open>get_schema\<close> checks the status of the answer and raises when the request
  failed. The code never reads the status: at a backend that answers 404 with an error
  document, \<open>get_schema\<close> returns that document as its result.
\<close>

theorem C5_get_schema_returns_error_body:
  "status (getresponse failing_schema_api (get_schema_request failing_schema_api ''no_topic'' None)) = 404 \<and>
   fst (get_schema failing_schema_api ''no_topic'' None []) =
     Inr (JObj [(''errorMsg'', JStr ''Topic not found'')])"
  by (simp add: get_schema_def Let_def failing_schema_api_def)

section \<open>The feature store query planner\<close>

text \<open>\<open>str(i)\<close> on an integer: its decimal digits, with a minus sign when negative.\<close>

definition digit_char :: "nat \<Rightarrow> char" where
  "digit_char d = ''0123456789'' ! d"

fun str_nat :: "nat \<Rightarrow> string" where
  "str_nat n = (if n < 10 then [digit_char n] else str_nat (n div 10) @ [digit_char (n mod 10)])"

declare str_nat.simps [simp del]

definition str_int :: "int \<Rightarrow> string" where
  "str_int i = (if i < 0 then CHR ''-'' # str_nat (nat (- i)) else str_nat (nat i))"

text \<open>
  The metadata of the feature store: a feature group has a name, a version and a list of
  features, a feature has a name.
\<close>

record feature =
  f_name :: string

record featuregroup =
  fg_name :: string
  fg_version :: int
  fg_features :: "feature list"

datatype featurestore_error = FeatureNameCollisionError | FeatureNotFound

subsection \<open>The join clause\<close>

text \<open>
  Modelled from the spec: the query planner (\<open>_get_join_str\<close> and the table name helper
  it uses) is missing from the sources at hand, which hold its tests only. The table of a
  feature group is named \<open><name>_<version>\<close>.
\<close>

definition get_table_name :: "string \<Rightarrow> int \<Rightarrow> string" where
  "get_table_name featuregroup version = featuregroup @ ''_'' @ str_int version"

definition table_of :: "featuregroup \<Rightarrow> string" where
  "table_of fg = get_table_name (fg_name fg) (fg_version fg)"

text \<open>
  Modelled from the spec: the clause is built by string concatenation. \<open>emit_joins\<close> writes
  \<open>JOIN <table>\<close> for each feature group it is given, \<open>emit_conditions\<close> writes, for each of
  them, the equality of its key column with the key column of the first feature group,
  with \<open>AND\<close> between two conditions.
\<close>

fun emit_joins :: "featuregroup list \<Rightarrow> string" where
  "emit_joins [] = []"
| "emit_joins [fg] = ''JOIN '' @ table_of fg"
| "emit_joins (fg # fg' # fgs) = ''JOIN '' @ table_of fg @ '' '' @ emit_joins (fg' # fgs)"

definition join_condition :: "featuregroup \<Rightarrow> string \<Rightarrow> featuregroup \<Rightarrow> string" where
  "join_condition first join_key fg =
     table_of first @ ''.`'' @ join_key @ ''`='' @ table_of fg @ ''.`'' @ join_key @ ''`''"

fun emit_conditions :: "featuregroup \<Rightarrow> string \<Rightarrow> featuregroup list \<Rightarrow> string" where
  "emit_conditions first join_key [] = []"
| "emit_conditions first join_key [fg] = join_condition first join_key fg"
| "emit_conditions first join_key (fg # fg' # fgs) =
     join_condition first join_key fg @ '' AND '' @ emit_conditions first join_key (fg' # fgs)"

text \<open>
  Modelled from the spec: \<open>_get_join_str\<close>, which the sources at hand do not hold. The
  spec speaks of non-empty lists only; on the empty list nothing but \<open>ON\<close> is written
  here.
\<close>

definition get_join_str :: "featuregroup list \<Rightarrow> string \<Rightarrow> string" where
  "get_join_str featuregroups join_key =
     (case featuregroups of
        [] \<Rightarrow> '' ON ''
      | first # others \<Rightarrow>
          emit_joins others @ '' ON '' @ emit_conditions first join_key others)"

subsection \<open>Finding the feature group of a feature\<close>

text \<open>
  Modelled from the spec: \<open>_find_featuregroup_that_contains_feature\<close> and \<open>_find_feature\<close>,
  which the sources at hand do not hold. Both are linear searches: through the features
  of a feature group, and through the feature groups.
\<close>

fun has_feature :: "feature list \<Rightarrow> string \<Rightarrow> bool" where
  "has_feature [] feature = False"
| "has_feature (f # fs) feature = (if f_name f = feature then True else has_feature fs feature)"

fun find_featuregroup_that_contains_feature :: "featuregroup list \<Rightarrow> string \<Rightarrow> featuregroup list" where
  "find_featuregroup_that_contains_feature [] feature = []"
| "find_featuregroup_that_contains_feature (fg # fgs) feature =
     (if has_feature (fg_features fg) feature
      then fg # find_featuregroup_that_contains_feature fgs feature
      else find_featuregroup_that_contains_feature fgs feature)"

definition find_feature ::
  "string \<Rightarrow> string \<Rightarrow> featuregroup list \<Rightarrow> featurestore_error + featuregroup" where
  "find_feature feature featurestore featuregroups =
     (case find_featuregroup_that_contains_feature featuregroups feature of
        [] \<Rightarrow> Inl FeatureNotFound
      | [fg] \<Rightarrow> Inr fg
      | _ \<Rightarrow> Inl FeatureNameCollisionError)"

subsection \<open>The feature groups of the tests\<close>

definition attendances_features :: featuregroup where
  "attendances_features =
     \<lparr>fg_name = ''attendances_features'', fg_version = 1,
      fg_features = [\<lparr>f_name = ''team_id''\<rparr>, \<lparr>f_name = ''average_attendance''\<rparr>]\<rparr>"

definition players_features :: featuregroup where
  "players_features =
     \<lparr>fg_name = ''players_features'', fg_version = 1,
      fg_features = [\<lparr>f_name = ''team_id''\<rparr>, \<lparr>f_name = ''average_player_worth''\<rparr>]\<rparr>"

definition season_scores_features :: featuregroup where
  "season_scores_features =
     \<lparr>fg_name = ''season_scores_features'', fg_version = 1,
      fg_features = [\<lparr>f_name = ''team_id''\<rparr>, \<lparr>f_name = ''average_position''\<rparr>]\<rparr>"

definition teams_features :: featuregroup where
  "teams_features =
     \<lparr>fg_name = ''teams_features'', fg_version = 1,
      fg_features = [\<lparr>f_name = ''team_budget''\<rparr>, \<lparr>f_name = ''team_id''\<rparr>,
                     \<lparr>f_name = ''team_position''\<rparr>]\<rparr>"

definition games_features :: featuregroup where
  "games_features =
     \<lparr>fg_name = ''games_features'', fg_version = 1,
      fg_features = [\<lparr>f_name = ''away_team_id''\<rparr>, \<lparr>f_name = ''home_team_id''\<rparr>,
                     \<lparr>f_name = ''score''\<rparr>]\<rparr>"

definition sample_featuregroups :: "featuregroup list" where
  "sample_featuregroups =
     [games_features, season_scores_features, attendances_features, players_features,
      teams_features]"

lemmas sample_featuregroup_defs =
  attendances_features_def players_features_def season_scores_features_def
  teams_features_def games_features_def

subsection \<open>Properties of the query planner\<close>

lemma emit_joins_join:
  "emit_joins fgs = str_join '' '' (map (\<lambda>fg. ''JOIN '' @ table_of fg) fgs)"
  by (induction fgs rule: emit_joins.induct) auto

lemma emit_conditions_join:
  "emit_conditions first join_key fgs =
     str_join '' AND '' (map (join_condition first join_key) fgs)"
  by (induction first join_key fgs rule: emit_conditions.induct) auto

lemma has_feature_iff: "has_feature fs feature \<longleftrightarrow> feature \<in> f_name ` set fs"
  by (induction fs) auto

lemma find_featuregroup_filter:
  "find_featuregroup_that_contains_feature fgs feature =
     filter (\<lambda>fg. feature \<in> f_name ` set (fg_features fg)) fgs"
  by (induction fgs) (auto simp: has_feature_iff)

text \<open>
  C1. For every non-empty list of feature groups, \<open>_get_join_str\<close> returns \<open>JOIN <table>\<close>
  for every feature group but the first, then \<open>ON\<close>, then the conditions
  \<open><first table>.`<key>`=<table>.`<key>`\<close>, one for every feature group but the first, with
  \<open>AND\<close> between them. For the four feature groups of the test and the key \<open>team_id\<close>
  this is the string the test expects.
\<close>

theorem C1_get_join_str:
  assumes "featuregroups \<noteq> []"
  shows "get_join_str featuregroups join_key =
    str_join '' '' (map (\<lambda>fg. ''JOIN '' @ fg_name fg @ ''_'' @ str_int (fg_version fg))
                        (tl featuregroups)) @
    '' ON '' @
    str_join '' AND ''
      (map (\<lambda>fg. fg_name (hd featuregroups) @ ''_'' @ str_int (fg_version (hd featuregroups)) @
                  ''.`'' @ join_key @ ''`='' @
                  fg_name fg @ ''_'' @ str_int (fg_version fg) @ ''.`'' @ join_key @ ''`'')
           (tl featuregroups))"
proof -
  from assms obtain first others where fgs: "featuregroups = first # others"
    by (cases featuregroups) auto
  have "join_condition first join_key =
      (\<lambda>fg. fg_name first @ ''_'' @ str_int (fg_version first) @ ''.`'' @ join_key @ ''`='' @
             fg_name fg @ ''_'' @ str_int (fg_version fg) @ ''.`'' @ join_key @ ''`'')"
    by (rule ext) (simp add: join_condition_def table_of_def get_table_name_def)
  moreover have "(\<lambda>fg. ''JOIN '' @ table_of fg) =
      (\<lambda>fg. ''JOIN '' @ fg_name fg @ ''_'' @ str_int (fg_version fg))"
    by (rule ext) (simp add: table_of_def get_table_name_def)
  ultimately show ?thesis
    unfolding fgs get_join_str_def
    by (simp add: emit_joins_join emit_conditions_join)
qed

theorem C1_get_join_str_witness:
  "get_join_str [attendances_features, players_features, season_scores_features, teams_features]
     ''team_id'' =
   ''JOIN players_features_1 JOIN season_scores_features_1 JOIN teams_features_1 '' @
   ''ON attendances_features_1.`team_id`=players_features_1.`team_id` '' @
   ''AND attendances_features_1.`team_id`=season_scores_features_1.`team_id` '' @
   ''AND attendances_features_1.`team_id`=teams_features_1.`team_id`''"
  using C1_get_join_str
    [of "[attendances_features, players_features, season_scores_features, teams_features]"
        "''team_id''"]
  by (simp add: sample_featuregroup_defs str_int_def str_nat.simps digit_char_def)

text \<open>
  C2. \<open>_find_featuregroup_that_contains_feature\<close> returns, in their order, the feature
  groups that have a feature of the given name. \<open>_find_feature\<close> returns the feature group
  when there is exactly one, raises \<open>FeatureNameCollisionError\<close> when there are several
  and \<open>FeatureNotFound\<close> when there is none.
\<close>

theorem C2_find_feature:
  "find_featuregroup_that_contains_feature fgs feature =
     filter (\<lambda>fg. feature \<in> f_name ` set (fg_features fg)) fgs \<and>
   (\<forall>fg. filter (\<lambda>fg. feature \<in> f_name ` set (fg_features fg)) fgs = [fg] \<longrightarrow>
      find_feature feature featurestore fgs = Inr fg) \<and>
   (1 < length (filter (\<lambda>fg. feature \<in> f_name ` set (fg_features fg)) fgs) \<longrightarrow>
      find_feature feature featurestore fgs = Inl FeatureNameCollisionError) \<and>
   (filter (\<lambda>fg. feature \<in> f_name ` set (fg_features fg)) fgs = [] \<longrightarrow>
      find_feature feature featurestore fgs = Inl FeatureNotFound)"
  by (auto simp: find_feature_def find_featuregroup_filter split: list.splits)

theorem C2_find_feature_witness:
  "find_feature ''team_budget'' ''test_project_featurestore'' sample_featuregroups =
     Inr teams_features \<and>
   find_feature ''team_id'' ''test_project_featurestore'' sample_featuregroups =
     Inl FeatureNameCollisionError \<and>
   length (find_featuregroup_that_contains_feature sample_featuregroups ''team_id'') = 4 \<and>
   find_feature ''non_existent_feature'' ''test_project_featurestore'' sample_featuregroups =
     Inl FeatureNotFound"
  using C2_find_feature [of sample_featuregroups "''team_budget''" "''test_project_featurestore''"]
    C2_find_feature [of sample_featuregroups "''team_id''" "''test_project_featurestore''"]
    C2_find_feature [of sample_featuregroups "''non_existent_feature''" "''test_project_featurestore''"]
  by (simp add: sample_featuregroups_def sample_featuregroup_defs)

section \<open>serving.py\<close>

subsection \<open>What serving.py reads from outside\<close>

text \<open>
  \<open>serving.py\<close> reads constants of three classes of \<open>constants.py\<close> that the
  \<open>constants.py\<close> at hand does not define, and the delimiter \<open>/\<close>. Their values are
  parameters of the model; \<open>HOPSWORKS_REST_RESOURCE\<close> is the one that is defined.
\<close>

record HTTP_CONFIG =
  HTTP_DELETE :: string
  HTTP_POST :: string
  HTTP_PUT :: string
  HTTP_GET :: string
  HTTP_CONTENT_TYPE :: string
  HTTP_APPLICATION_JSON :: string

record MODEL_SERVING =
  SERVING_ACTION_START :: string
  SERVING_ACTION_STOP :: string
  SERVING_START_OR_STOP_PATH_PARAM :: string
  SERVING_TOOL_KFSERVING :: string
  SERVING_TOOL_DEFAULT :: string
  MODEL_SERVER_TENSORFLOW_SERVING :: string
  MODEL_SERVER_FLASK :: string
  MODEL_SERVERS :: "string list"

record REST_CONFIG =
  HOPSWORKS_PROJECT_RESOURCE :: string
  HOPSWORKS_SERVING_RESOURCE :: string
  HOPSWORKS_INFERENCE_RESOURCE :: string
  HOPSWORKS_MODELS_RESOURCE :: string
  JSON_SERVING_MODEL_VERSION :: string
  JSON_SERVING_ARTIFACT_PATH :: string
  JSON_MODEL_SERVER :: string
  JSON_SERVING_TOOL :: string
  JSON_SERVING_NAME :: string
  JSON_SERVING_KAFKA_TOPIC_DTO :: string
  JSON_KAFKA_TOPIC_NAME :: string
  JSON_KAFKA_NUM_PARTITIONS :: string
  JSON_KAFKA_NUM_REPLICAS :: string
  JSON_SERVING_REQUESTED_INSTANCES :: string
  JSON_SERVING_ID :: string
  JSON_SERVING_BATCHING_ENABLED :: string
  JSON_SERVING_STATUS :: string
  JSON_SERVING_CREATOR :: string
  JSON_SERVING_CREATED :: string

text \<open>
  A request handed to \<open>util.send_request(method, resource_url, data=None, headers=None)\<close>
  and the response it returns. The data of a request is kept as the document that
  \<open>json.dumps\<close> serialises. \<open>json_body\<close> is what \<open>response.json()\<close> returns; it is \<open>None\<close>
  for a response whose body is not a JSON document, where \<open>response.json()\<close> raises.
\<close>

record request =
  req_method :: string
  req_url :: string
  req_data :: "json option"
  req_headers :: "(string \<times> string) list option"

record response =
  status_code :: int
  reason :: string
  json_body :: "json option"

text \<open>
  The modules \<open>hdfs\<close> and \<open>util\<close> are not part of the sources at hand. What they return
  is a parameter of the model: the project id, whether a path exists, the expanded and
  the plain form of a path, the backend's response to a request, and the three fields
  that \<open>util._parse_rest_error\<close> extracts from an error document.
\<close>

record env =
  http_config :: HTTP_CONFIG
  model_serving :: MODEL_SERVING
  rest_config :: REST_CONFIG
  SLASH_DELIMITER :: string
  project_id :: string
  hdfs_exists :: "string \<Rightarrow> bool"
  expand_path :: "string \<Rightarrow> string"
  get_plain_path :: "string \<Rightarrow> string"
  backend :: "request \<Rightarrow> response"
  parse_rest_error :: "json \<Rightarrow> json \<times> json \<times> json"

text \<open>
  The state of the model is the list of the requests sent so far, the oldest first. Every
  function that talks to the backend takes it and returns it, extended by what it sent.
\<close>

definition send_request :: "env \<Rightarrow> request \<Rightarrow> request list \<Rightarrow> response \<times> request list" where
  "send_request e req sent = (backend e req, sent @ [req])"

text \<open>
  The end of every message of a \<open>RestAPIError\<close>: the text after the description of what
  failed.
\<close>

definition server_response :: string where
  "server_response =
     ''server response: '' @ [CHR 0x0A] @
     '' HTTP code: {}, HTTP reason: {}, error code: {}, error msg: {}, user msg: {}''"



text \<open>The URL of the servings of the project, which every request to them starts with.\<close>

definition serving_resource_url :: "env \<Rightarrow> string" where
  "serving_resource_url e =
     SLASH_DELIMITER e @ HOPSWORKS_REST_RESOURCE @ SLASH_DELIMITER e @
     HOPSWORKS_PROJECT_RESOURCE (rest_config e) @ SLASH_DELIMITER e @
     project_id e @ SLASH_DELIMITER e @
     HOPSWORKS_SERVING_RESOURCE (rest_config e) @ SLASH_DELIMITER e"

text \<open>
  What a REST helper does with a response that reports a failure: it decodes the body,
  extracts the error fields and raises \<open>RestAPIError\<close> with the message made of the
  given template and arguments, followed by the code and reason of the response and the
  error fields.
\<close>

definition raise_rest_error ::
  "env \<Rightarrow> response \<Rightarrow> json \<Rightarrow> string \<Rightarrow> json list \<Rightarrow> error" where
  "raise_rest_error e resp response_object what args =
     (case parse_rest_error e response_object of
        (error_code, error_msg, user_msg) \<Rightarrow>
          RestAPIError (Format (what @ server_response)
            (args @ [JInt (status_code resp), JStr (reason resp), error_code, error_msg, user_msg])))"

subsection \<open>Deleting, starting and stopping a serving\<close>





subsection \<open>Creating or updating a serving\<close>

text \<open>
  The arguments that the caller is free to pass any Python value for are of type
  \<open>json\<close>: the model version, whether batching is enabled, the topic name, the numbers of
  partitions, replicas and instances.
\<close>

definition create_or_update_serving_request ::
  "env \<Rightarrow> string \<Rightarrow> string \<Rightarrow> json \<Rightarrow> string \<Rightarrow> bool \<Rightarrow> json \<Rightarrow> json \<Rightarrow> json \<Rightarrow> json \<Rightarrow>
   int option \<Rightarrow> json \<Rightarrow> request" where
  "create_or_update_serving_request e serving_name model_path model_version model_server
     kfserving batching_enabled topic_name num_partitions num_replicas serving_id instances =
     (let c = rest_config e;
          serving_tool = (if kfserving then SERVING_TOOL_KFSERVING (model_serving e)
                          else SERVING_TOOL_DEFAULT (model_serving e));
          kafka_topic_dto = [];
          kafka_topic_dto = dict_set (JSON_KAFKA_TOPIC_NAME c) topic_name kafka_topic_dto;
          kafka_topic_dto = dict_set (JSON_KAFKA_NUM_PARTITIONS c) num_partitions kafka_topic_dto;
          kafka_topic_dto = dict_set (JSON_KAFKA_NUM_REPLICAS c) num_replicas kafka_topic_dto;
          json_contents = [];
          json_contents = dict_set (JSON_SERVING_MODEL_VERSION c) model_version json_contents;
          json_contents = dict_set (JSON_SERVING_ARTIFACT_PATH c) (JStr model_path) json_contents;
          json_contents = dict_set (JSON_MODEL_SERVER c) (JStr model_server) json_contents;
          json_contents = dict_set (JSON_SERVING_TOOL c) (JStr serving_tool) json_contents;
          json_contents = dict_set (JSON_SERVING_NAME c) (JStr serving_name) json_contents;
          json_contents = dict_set (JSON_SERVING_KAFKA_TOPIC_DTO c) (JObj kafka_topic_dto) json_contents;
          json_contents = dict_set (JSON_SERVING_REQUESTED_INSTANCES c) instances json_contents;
          json_contents = (case serving_id of
                             None \<Rightarrow> json_contents
                           | Some i \<Rightarrow> dict_set (JSON_SERVING_ID c) (JInt i) json_contents);
          json_contents = (if model_server = MODEL_SERVER_TENSORFLOW_SERVING (model_serving e)
                           then dict_set (JSON_SERVING_BATCHING_ENABLED c) batching_enabled json_contents
                           else json_contents);
          json_embeddable = JObj json_contents;
          headers = [(HTTP_CONTENT_TYPE (http_config e), HTTP_APPLICATION_JSON (http_config e))];
          method = HTTP_PUT (http_config e);
          resource_url = serving_resource_url e
      in \<lparr>req_method = method, req_url = resource_url, req_data = Some json_embeddable,
           req_headers = Some headers\<rparr>)"

definition create_or_update_serving_rest ::
  "env \<Rightarrow> string \<Rightarrow> string \<Rightarrow> json \<Rightarrow> string \<Rightarrow> bool \<Rightarrow> json \<Rightarrow> json \<Rightarrow> json \<Rightarrow> json \<Rightarrow>
   int option \<Rightarrow> json \<Rightarrow> request list \<Rightarrow> (error + unit) \<times> request list" where
  "create_or_update_serving_rest e serving_name model_path model_version model_server
     kfserving batching_enabled topic_name num_partitions num_replicas serving_id instances sent =
     (case send_request e
             (create_or_update_serving_request e serving_name model_path model_version
                model_server kfserving batching_enabled topic_name num_partitions num_replicas
                serving_id instances) sent of
        (resp, sent') \<Rightarrow>
          if status_code resp \<noteq> 201 \<and> status_code resp \<noteq> 200
          then (case json_body resp of
                  None \<Rightarrow> (Inl JSONDecodeError, sent')
                | Some response_object \<Rightarrow>
                    (Inl (raise_rest_error e resp response_object
                            ''Could not create or update serving (url: {}), ''
                            [JStr (serving_resource_url e)]),
                     sent'))
          else (Inr (), sent'))"

subsection \<open>Inference requests\<close>



subsection \<open>Validation of the user's input\<close>

text \<open>
  \<open>re.compile("^[a-zA-Z0-9]+$").match(s)\<close>: one or more of the characters of the class,
  from the start of \<open>s\<close> to its end, where \<open>$\<close> stands for the end of the string and
  also for the place before a line feed that ends the string.
\<close>

definition alnum :: "char \<Rightarrow> bool" where
  "alnum c \<longleftrightarrow>
     c \<in> set ''abcdefghijklmnopqrstuvwxyzABCDEFGHIJKLMNOPQRSTUVWXYZ0123456789''"

definition name_pattern_match :: "string \<Rightarrow> bool" where
  "name_pattern_match s =
     (let body = (if s \<noteq> [] \<and> last s = CHR 0x0A then butlast s else s)
      in body \<noteq> [] \<and> list_all alnum body)"

text \<open>\<open>isinstance(v, int)\<close> holds of the integers and of the booleans, a subclass of them.\<close>

fun isinstance_int :: "json \<Rightarrow> bool" where
  "isinstance_int (JInt i) = True"
| "isinstance_int (JBool b) = True"
| "isinstance_int v = False"

fun isinstance_bool :: "json \<Rightarrow> bool" where
  "isinstance_bool (JBool b) = True"
| "isinstance_bool v = False"

text \<open>The truth value of a Python value, as an \<open>if\<close> reads it.\<close>

fun truthy :: "json \<Rightarrow> bool" where
  "truthy JNull = False"
| "truthy (JBool b) = b"
| "truthy (JInt i) = (i \<noteq> 0)"
| "truthy (JStr s) = (s \<noteq> [])"
| "truthy (JList xs) = (xs \<noteq> [])"
| "truthy (JObj d) = (d \<noteq> [])"

definition validate_user_serving_input ::
  "env \<Rightarrow> string \<Rightarrow> string \<Rightarrow> json \<Rightarrow> string \<Rightarrow> bool \<Rightarrow> json \<Rightarrow> json \<Rightarrow> json \<Rightarrow> json \<Rightarrow>
   json \<Rightarrow> error + unit" where
  "validate_user_serving_input e serving_name model_path model_version model_server kfserving
     batching_enabled topic_name num_partitions num_replicas instances =
     (if length serving_name > 256 \<or> serving_name = [] \<or> \<not> name_pattern_match serving_name
      then Inl (ValueError (Format
        (''Name of serving cannot be empty, cannot exceed 256 characters and must match the regular '' @
         ''expression: ^[a-zA-Z0-9]+$, the provided name: {} is not valid'')
        [JStr serving_name]))
      else if \<not> hdfs_exists e model_path
      then Inl (ValueError (Format
        (''The model/artifact path must exist in HDFS, the provided path: {} '' @
         ''does not exist'')
        [JStr model_path]))
      else if model_server \<notin> set (MODEL_SERVERS (model_serving e))
      then Inl (ValueError (Format
        (''The provided model_server: {} is not supported, supported '' @
         ''model servers are: {}'')
        [JStr model_server, JStr (str_join '','' (MODEL_SERVERS (model_serving e)))]))
      else if \<not> isinstance_int model_version
      then Inl (ValueError (Format
        ''The model version must be an integer, the provided version is not: {}''
        [model_version]))
      else if model_server = MODEL_SERVER_TENSORFLOW_SERVING (model_serving e) \<and>
              \<not> isinstance_int num_replicas
      then Inl (ValueError (Format
        (''Number of kafka topic replicas must be an integer, the provided num replicas '' @
         ''is not: {}'')
        [model_version]))
      else if model_server = MODEL_SERVER_TENSORFLOW_SERVING (model_serving e) \<and>
              \<not> isinstance_int num_partitions
      then Inl (ValueError (Format
        (''Number of kafka topic partitions must be an integer, the provided num partitions '' @
         ''is not: {}'')
        [num_partitions]))
      else if model_server = MODEL_SERVER_TENSORFLOW_SERVING (model_serving e) \<and>
              \<not> isinstance_bool batching_enabled
      then Inl (ValueError (Format
        (''Batching enabled must be a boolean, the provided value '' @
         ''is not: {}'')
        [batching_enabled]))
      else if model_server = MODEL_SERVER_TENSORFLOW_SERVING (model_serving e) \<and>
              kfserving \<and> truthy batching_enabled
      then Inl (ValueError (Format
        ''Batching requests is currently not supported in KFServing deployments'' []))
      else if kfserving \<and> model_server = MODEL_SERVER_FLASK (model_serving e)
      then Inl (ValueError (Format
        ''Flask is currently not supported for KFServing deployments'' []))
      else if \<not> isinstance_int instances
      then Inl (ValueError (Format
        (''The number of serving instances must be an integer, '' @
         ''the provided version is not: {}'')
        [instances]))
      else Inr ())"

definition detect_model_server :: "env \<Rightarrow> string \<Rightarrow> string" where
  "detect_model_server e artifact_path =
     (if suffix ''.py'' artifact_path then MODEL_SERVER_FLASK (model_serving e)
      else MODEL_SERVER_TENSORFLOW_SERVING (model_serving e))"

subsection \<open>The servings of the project\<close>

text \<open>
  The class \<open>Serving\<close>. The name of a serving is a string and its id an integer or
  \<open>None\<close>, which is how the module uses them: it joins names with \<open>","\<close> and writes ids
  into URLs. The other attributes hold whatever the document holds. \<open>kafka_topic_dto\<close>
  is set only when the document has the key; the class \<open>KafkaTopicDTO\<close> that wraps it is
  not part of the sources at hand, and the attribute holds the wrapped document.
\<close>

record serving =
  s_status :: json
  s_artifact_path :: json
  s_name :: string
  s_creator :: json
  s_model_server :: json
  s_serving_tool :: json
  s_model_version :: json
  s_created :: json
  s_requested_instances :: json
  s_kafka_topic_dto :: "json option"
  s_id :: "int option"

text \<open>
  \<open>obj[key]\<close> with a string key: a dictionary gives the value or raises \<open>KeyError\<close>;
  any other value raises \<open>TypeError\<close>.
\<close>

definition py_getitem :: "json \<Rightarrow> string \<Rightarrow> error + json" where
  "py_getitem obj k =
     (case obj of
        JObj d \<Rightarrow> (case map_of d k of None \<Rightarrow> Inl (KeyError k) | Some v \<Rightarrow> Inr v)
      | _ \<Rightarrow> Inl TypeError)"

text \<open>
  Reading a value at the type of the attribute it goes to. A document whose name is not
  a string, or whose id is neither an integer nor \<open>null\<close>, lies outside what the backend
  sends; the model raises \<open>TypeError\<close> for it.
\<close>

definition as_str :: "json \<Rightarrow> error + string" where
  "as_str v = (case v of JStr s \<Rightarrow> Inr s | _ \<Rightarrow> Inl TypeError)"

definition as_id :: "json \<Rightarrow> error + int option" where
  "as_id v = (case v of JNull \<Rightarrow> Inr None | JInt i \<Rightarrow> Inr (Some i) | _ \<Rightarrow> Inl TypeError)"

definition Serving :: "env \<Rightarrow> json \<Rightarrow> error + serving" where
  "Serving e serving_json =
     (let c = rest_config e in
      bind_err (py_getitem serving_json (JSON_SERVING_STATUS c)) (\<lambda>status.
      bind_err (py_getitem serving_json (JSON_SERVING_ARTIFACT_PATH c)) (\<lambda>artifact_path.
      bind_err (bind_err (py_getitem serving_json (JSON_SERVING_NAME c)) as_str) (\<lambda>name.
      bind_err (py_getitem serving_json (JSON_SERVING_CREATOR c)) (\<lambda>creator.
      bind_err (py_getitem serving_json (JSON_SERVING_CREATOR c)) (\<lambda>creator.
      bind_err (py_getitem serving_json (JSON_MODEL_SERVER c)) (\<lambda>model_server.
      bind_err (py_getitem serving_json (JSON_SERVING_TOOL c)) (\<lambda>serving_tool.
      bind_err (py_getitem serving_json (JSON_SERVING_MODEL_VERSION c)) (\<lambda>model_version.
      bind_err (py_getitem serving_json (JSON_SERVING_CREATED c)) (\<lambda>created.
      bind_err (py_getitem serving_json (JSON_SERVING_REQUESTED_INSTANCES c)) (\<lambda>requested_instances.
      bind_err (case py_getitem serving_json (JSON_SERVING_KAFKA_TOPIC_DTO c) of
                  Inl err \<Rightarrow> Inr None
                | Inr dto \<Rightarrow> Inr (Some dto)) (\<lambda>kafka_topic_dto.
      bind_err (bind_err (py_getitem serving_json (JSON_SERVING_ID c)) as_id) (\<lambda>serving_id.
      Inr \<lparr>s_status = status, s_artifact_path = artifact_path, s_name = name,
           s_creator = creator, s_model_server = model_server, s_serving_tool = serving_tool,
           s_model_version = model_version, s_created = created,
           s_requested_instances = requested_instances,
           s_kafka_topic_dto = kafka_topic_dto, s_id = serving_id\<rparr>)))))))))))))"

text \<open>
  Iterating over a Python value: a list gives its items, a dictionary its keys, a string
  its characters; the other values raise \<open>TypeError\<close>.
\<close>

definition py_iter :: "json \<Rightarrow> error + json list" where
  "py_iter v =
     (case v of
        JList xs \<Rightarrow> Inr xs
      | JObj d \<Rightarrow> Inr (map (\<lambda>kv. JStr (fst kv)) d)
      | JStr s \<Rightarrow> Inr (map (\<lambda>c. JStr [c]) s)
      | _ \<Rightarrow> Inl TypeError)"

fun map_err :: "('a \<Rightarrow> error + 'b) \<Rightarrow> 'a list \<Rightarrow> error + 'b list" where
  "map_err f [] = Inr []"
| "map_err f (x # xs) = bind_err (f x) (\<lambda>y. bind_err (map_err f xs) (\<lambda>ys. Inr (y # ys)))"

definition parse_json_servings :: "env \<Rightarrow> json \<Rightarrow> error + serving list" where
  "parse_json_servings e json_servings =
     bind_err (py_iter json_servings) (map_err (Serving e))"

definition get_servings_request :: "env \<Rightarrow> request" where
  "get_servings_request e =
     (let method = HTTP_GET (http_config e);
          resource_url = serving_resource_url e
      in \<lparr>req_method = method, req_url = resource_url, req_data = None, req_headers = None\<rparr>)"

definition get_servings_rest :: "env \<Rightarrow> request list \<Rightarrow> (error + json) \<times> request list" where
  "get_servings_rest e sent =
     (case send_request e (get_servings_request e) sent of
        (resp, sent') \<Rightarrow>
          (case json_body resp of
             None \<Rightarrow> (Inl JSONDecodeError, sent')
           | Some response_object \<Rightarrow>
               if status_code resp \<noteq> 200
               then (Inl (raise_rest_error e resp response_object
                            ''Could not fetch list of servings from Hopsworks REST API (url: {}), ''
                            [JStr (serving_resource_url e)]),
                     sent')
               else (Inr response_object, sent')))"

definition get_all :: "env \<Rightarrow> request list \<Rightarrow> (error + serving list) \<times> request list" where
  "get_all e sent =
     (case get_servings_rest e sent of
        (r, sent') \<Rightarrow> (bind_err r (parse_json_servings e), sent'))"

text \<open>
  \<open>_find_serving_with_name\<close>: the loop over the servings, with the names passed so far.
  The function returns the list of servings it was given next to its result, so that
  what it does to the list can be stated.
\<close>

fun find_serving_loop ::
  "string \<Rightarrow> serving list \<Rightarrow> string list \<Rightarrow> error + serving" where
  "find_serving_loop serving_name [] serving_names =
     Inl (ServingNotFound (Format
       (''No serving with name: {} could be found among the list of '' @
        ''available servings: {}'')
       [JStr serving_name, JStr (str_join '','' serving_names)]))"
| "find_serving_loop serving_name (serving # rest) serving_names =
     (if s_name serving = serving_name then Inr serving
      else find_serving_loop serving_name rest (serving_names @ [s_name serving]))"

definition find_serving_with_name ::
  "string \<Rightarrow> serving list \<Rightarrow> (error + serving) \<times> serving list" where
  "find_serving_with_name serving_name servings =
     (find_serving_loop serving_name servings [], servings)"

text \<open>\<open>try: ... except ServingNotFound: return v\<close>\<close>

definition except_ServingNotFound :: "error + 'a \<Rightarrow> 'a \<Rightarrow> error + 'a" where
  "except_ServingNotFound r v =
     (case r of
        Inl (ServingNotFound m) \<Rightarrow> Inr v
      | _ \<Rightarrow> r)"

definition get_id :: "env \<Rightarrow> string \<Rightarrow> request list \<Rightarrow> (error + int option) \<times> request list" where
  "get_id e serving_name sent =
     (case get_all e sent of
        (r, sent') \<Rightarrow>
          (except_ServingNotFound
             (bind_err r (\<lambda>servings.
                bind_err (fst (find_serving_with_name serving_name servings)) (\<lambda>serving.
                  Inr (s_id serving))))
             None,
           sent'))"

definition exists :: "env \<Rightarrow> string \<Rightarrow> request list \<Rightarrow> (error + bool) \<times> request list" where
  "exists e serving_name sent =
     (case get_id e serving_name sent of
        (r, sent') \<Rightarrow>
          (except_ServingNotFound (bind_err r (\<lambda>serving_id. Inr (serving_id \<noteq> None))) False,
           sent'))"

text \<open>
  \<open>create_or_update\<close>. An omitted \<open>model_server\<close> is \<open>None\<close> and is then inferred from the
  artifact path.
\<close>

definition create_or_update ::
  "env \<Rightarrow> string \<Rightarrow> string \<Rightarrow> json \<Rightarrow> string option \<Rightarrow> bool \<Rightarrow> json \<Rightarrow> json \<Rightarrow> json \<Rightarrow> json \<Rightarrow>
   json \<Rightarrow> request list \<Rightarrow> (error + unit) \<times> request list" where
  "create_or_update e serving_name artifact_path model_version model_server kfserving
     batching_enabled topic_name num_partitions num_replicas instances sent =
     (case get_id e serving_name sent of
        (Inl err, sent') \<Rightarrow> (Inl err, sent')
      | (Inr serving_id, sent') \<Rightarrow>
          (let artifact_path = expand_path e artifact_path;
               model_server = (case model_server of
                                 None \<Rightarrow> detect_model_server e artifact_path
                               | Some m \<Rightarrow> m)
           in case validate_user_serving_input e serving_name artifact_path model_version
                     model_server kfserving batching_enabled topic_name num_partitions
                     num_replicas instances of
                Inl err \<Rightarrow> (Inl err, sent')
              | Inr u \<Rightarrow>
                  (let artifact_path = get_plain_path e artifact_path
                   in create_or_update_serving_rest e serving_name artifact_path model_version
                        model_server kfserving batching_enabled topic_name num_partitions
                        num_replicas serving_id instances sent')))"

subsection \<open>A sample project\<close>

definition sample_http_config :: HTTP_CONFIG where
  "sample_http_config =
     \<lparr>HTTP_DELETE = ''DELETE'', HTTP_POST = ''POST'', HTTP_PUT = ''PUT'', HTTP_GET = ''GET'',
      HTTP_CONTENT_TYPE = ''Content-type'', HTTP_APPLICATION_JSON = ''application/json''\<rparr>"

definition sample_model_serving :: MODEL_SERVING where
  "sample_model_serving =
     \<lparr>SERVING_ACTION_START = ''START'', SERVING_ACTION_STOP = ''STOP'',
      SERVING_START_OR_STOP_PATH_PARAM = ''?action='',
      SERVING_TOOL_KFSERVING = ''KFSERVING'', SERVING_TOOL_DEFAULT = ''DEFAULT'',
      MODEL_SERVER_TENSORFLOW_SERVING = ''TENSORFLOW_SERVING'', MODEL_SERVER_FLASK = ''FLASK'',
      MODEL_SERVERS = [''TENSORFLOW_SERVING'', ''FLASK'']\<rparr>"

definition sample_rest_config :: REST_CONFIG where
  "sample_rest_config =
     \<lparr>HOPSWORKS_PROJECT_RESOURCE = ''project'', HOPSWORKS_SERVING_RESOURCE = ''serving'',
      HOPSWORKS_INFERENCE_RESOURCE = ''inference'', HOPSWORKS_MODELS_RESOURCE = ''models'',
      JSON_SERVING_MODEL_VERSION = ''modelVersion'', JSON_SERVING_ARTIFACT_PATH = ''artifactPath'',
      JSON_MODEL_SERVER = ''modelServer'', JSON_SERVING_TOOL = ''servingTool'',
      JSON_SERVING_NAME = ''name'', JSON_SERVING_KAFKA_TOPIC_DTO = ''kafkaTopicDTO'',
      JSON_KAFKA_TOPIC_NAME = ''name'', JSON_KAFKA_NUM_PARTITIONS = ''numOfPartitions'',
      JSON_KAFKA_NUM_REPLICAS = ''numOfReplicas'',
      JSON_SERVING_REQUESTED_INSTANCES = ''requestedInstances'', JSON_SERVING_ID = ''id'',
      JSON_SERVING_BATCHING_ENABLED = ''batchingEnabled'', JSON_SERVING_STATUS = ''status'',
      JSON_SERVING_CREATOR = ''creator'', JSON_SERVING_CREATED = ''created''\<rparr>"

text \<open>A project whose backend is the given function.\<close>

definition sample_env :: "(request \<Rightarrow> response) \<Rightarrow> env" where
  "sample_env b =
     \<lparr>http_config = sample_http_config, model_serving = sample_model_serving,
      rest_config = sample_rest_config, SLASH_DELIMITER = ''/'', project_id = ''119'',
      hdfs_exists = (\<lambda>p. True), expand_path = (\<lambda>p. p), get_plain_path = (\<lambda>p. p),
      backend = b,
      parse_rest_error = (\<lambda>obj. (JInt 120001, JStr ''Serving instance not found'', JStr ''''))\<rparr>"

definition mnist_json :: json where
  "mnist_json =
     JObj [(''status'', JStr ''Running''), (''artifactPath'', JStr ''/Projects/demo/Models/mnist''),
           (''name'', JStr ''mnist''), (''creator'', JStr ''Admin Admin''),
           (''modelServer'', JStr ''TENSORFLOW_SERVING''), (''servingTool'', JStr ''DEFAULT''),
           (''modelVersion'', JInt 1), (''created'', JInt 1561796312000),
           (''requestedInstances'', JInt 1), (''id'', JInt 7)]"

definition iris_json :: json where
  "iris_json =
     JObj [(''status'', JStr ''Stopped''), (''artifactPath'', JStr ''/Projects/demo/Models/iris.py''),
           (''name'', JStr ''iris''), (''creator'', JStr ''Admin Admin''),
           (''modelServer'', JStr ''FLASK''), (''servingTool'', JStr ''DEFAULT''),
           (''modelVersion'', JInt 2), (''created'', JInt 1561796400000),
           (''requestedInstances'', JInt 1), (''id'', JInt 9)]"

definition mnist :: serving where
  "mnist =
     \<lparr>s_status = JStr ''Running'', s_artifact_path = JStr ''/Projects/demo/Models/mnist'',
      s_name = ''mnist'', s_creator = JStr ''Admin Admin'',
      s_model_server = JStr ''TENSORFLOW_SERVING'', s_serving_tool = JStr ''DEFAULT'',
      s_model_version = JInt 1, s_created = JInt 1561796312000,
      s_requested_instances = JInt 1, s_kafka_topic_dto = None, s_id = Some 7\<rparr>"

definition iris :: serving where
  "iris =
     \<lparr>s_status = JStr ''Stopped'', s_artifact_path = JStr ''/Projects/demo/Models/iris.py'',
      s_name = ''iris'', s_creator = JStr ''Admin Admin'',
      s_model_server = JStr ''FLASK'', s_serving_tool = JStr ''DEFAULT'',
      s_model_version = JInt 2, s_created = JInt 1561796400000,
      s_requested_instances = JInt 1, s_kafka_topic_dto = None, s_id = Some 9\<rparr>"

text \<open>A backend that answers every request with 200 and the list of the two servings.\<close>

definition ok_backend :: "request \<Rightarrow> response" where
  "ok_backend req = \<lparr>status_code = 200, reason = ''OK'', json_body = Some (JList [mnist_json, iris_json])\<rparr>"

text \<open>A backend that answers every request with 500 and an error document.\<close>

definition error_backend :: "request \<Rightarrow> response" where
  "error_backend req =
     \<lparr>status_code = 500, reason = ''Internal Server Error'',
      json_body = Some (JObj [(''errorCode'', JInt 120001)])\<rparr>"


lemmas sample_env_defs =
  sample_env_def sample_http_config_def sample_model_serving_def sample_rest_config_def

subsection \<open>Finding a serving by its name\<close>

lemma find_serving_loop_find:
  "find_serving_loop serving_name servings serving_names =
     (case find (\<lambda>s. s_name s = serving_name) servings of
        Some s \<Rightarrow> Inr s
      | None \<Rightarrow> Inl (ServingNotFound (Format
          (''No serving with name: {} could be found among the list of '' @
           ''available servings: {}'')
          [JStr serving_name, JStr (str_join '','' (serving_names @ map s_name servings))])))"
  by (induction servings arbitrary: serving_names) (auto split: option.splits)

text \<open>
  C4. \<open>_find_serving_with_name\<close> returns the first serving of the list, in list order,
  whose name is the given name. When no serving of the list has that name it raises
  \<open>ServingNotFound\<close>, with a message that lists the names of all the servings. The list
  is left as it was.
\<close>

theorem C4_find_serving_with_name:
  "snd (find_serving_with_name serving_name servings) = servings \<and>
   (\<forall>before s after.
      servings = before @ s # after \<and> s_name s = serving_name \<and>
      (\<forall>x \<in> set before. s_name x \<noteq> serving_name) \<longrightarrow>
      fst (find_serving_with_name serving_name servings) = Inr s) \<and>
   ((\<forall>s \<in> set servings. s_name s \<noteq> serving_name) \<longrightarrow>
      fst (find_serving_with_name serving_name servings) =
        Inl (ServingNotFound (Format
          (''No serving with name: {} could be found among the list of '' @
           ''available servings: {}'')
          [JStr serving_name, JStr (str_join '','' (map s_name servings))])))"
proof (intro conjI allI impI)
  show "snd (find_serving_with_name serving_name servings) = servings"
    by (simp add: find_serving_with_name_def)
next
  fix before s after
  assume h: "servings = before @ s # after \<and> s_name s = serving_name \<and>
             (\<forall>x \<in> set before. s_name x \<noteq> serving_name)"
  then have "find (\<lambda>s. s_name s = serving_name) servings = Some s"
    by (induction before arbitrary: servings) auto
  then show "fst (find_serving_with_name serving_name servings) = Inr s"
    by (simp add: find_serving_with_name_def find_serving_loop_find)
next
  assume "\<forall>s \<in> set servings. s_name s \<noteq> serving_name"
  then have "find (\<lambda>s. s_name s = serving_name) servings = None"
    by (simp add: find_None_iff)
  then show "fst (find_serving_with_name serving_name servings) =
      Inl (ServingNotFound (Format
        (''No serving with name: {} could be found among the list of '' @
         ''available servings: {}'')
        [JStr serving_name, JStr (str_join '','' (map s_name servings))]))"
    by (simp add: find_serving_with_name_def find_serving_loop_find)
qed

theorem C4_find_serving_with_name_witness:
  "find_serving_with_name ''iris'' [mnist, iris, iris\<lparr>s_id := Some 11\<rparr>] =
     (Inr iris, [mnist, iris, iris\<lparr>s_id := Some 11\<rparr>]) \<and>
   find_serving_with_name ''cifar'' [mnist, iris] =
     (Inl (ServingNotFound (Format
        ''No serving with name: {} could be found among the list of available servings: {}''
        [JStr ''cifar'', JStr ''mnist,iris''])), [mnist, iris])"
proof -
  let ?found = "[mnist, iris, iris\<lparr>s_id := Some 11\<rparr>]"
  have a: "?found = [mnist] @ iris # [iris\<lparr>s_id := Some 11\<rparr>] \<and>
        s_name iris = ''iris'' \<and> (\<forall>x \<in> set [mnist]. s_name x \<noteq> ''iris'')"
    by (simp add: mnist_def iris_def)
  have b: "\<forall>s \<in> set [mnist, iris]. s_name s \<noteq> ''cifar''"
    by (simp add: mnist_def iris_def)
  note found = C4_find_serving_with_name [of "''iris''" ?found]
  note missing = C4_find_serving_with_name [of "''cifar''" "[mnist, iris]"]
  have "snd (find_serving_with_name ''iris'' ?found) = ?found"
    using found by (rule conjunct1)
  moreover have "fst (find_serving_with_name ''iris'' ?found) = Inr iris"
    using found a by blast
  moreover have "snd (find_serving_with_name ''cifar'' [mnist, iris]) = [mnist, iris]"
    using missing by (rule conjunct1)
  moreover have "fst (find_serving_with_name ''cifar'' [mnist, iris]) =
      Inl (ServingNotFound (Format
        (''No serving with name: {} could be found among the list of '' @
         ''available servings: {}'')
        [JStr ''cifar'', JStr (str_join '','' (map s_name [mnist, iris]))]))"
    using missing b by blast
  ultimately show ?thesis
    by (simp add: prod_eq_iff mnist_def iris_def)
qed

subsection \<open>Whether a serving exists\<close>

lemma except_ServingNotFound_caught:
  "except_ServingNotFound r v \<noteq> Inl (ServingNotFound m)"
  by (auto simp: except_ServingNotFound_def split: sum.splits error.splits)

lemma except_ServingNotFound_id:
  "(\<And>m. r \<noteq> Inl (ServingNotFound m)) \<Longrightarrow> except_ServingNotFound r v = r"
  by (auto simp: except_ServingNotFound_def split: sum.splits error.splits)

lemma get_id_not_ServingNotFound:
  "fst (get_id e serving_name sent) \<noteq> Inl (ServingNotFound m)"
  by (simp add: get_id_def split_def except_ServingNotFound_caught)

lemma exists_without_handler:
  "exists e serving_name sent =
     (case get_id e serving_name sent of
        (r, sent') \<Rightarrow> (bind_err r (\<lambda>serving_id. Inr (serving_id \<noteq> None)), sent'))"
proof -
  have "bind_err (fst (get_id e serving_name sent)) (\<lambda>serving_id. Inr (serving_id \<noteq> None))
        \<noteq> Inl (ServingNotFound m)" for m
    using get_id_not_ServingNotFound [of e serving_name sent m]
    by (auto simp: bind_err_def split: sum.splits)
  then show ?thesis
    by (simp add: exists_def split_def except_ServingNotFound_id)
qed

text \<open>
  C9. \<open>exists(serving_name)\<close> returns \<open>True\<close> exactly when \<open>get_id(serving_name)\<close>
  returns a value other than \<open>None\<close>. Neither of them raises \<open>ServingNotFound\<close>:
  \<open>get_id\<close> catches it and returns \<open>None\<close>, so the handler of \<open>exists\<close> is never entered,
  and \<open>exists\<close> is \<open>get_id(serving_name) is not None\<close> without the handler. What
  \<open>exists\<close> returns is a boolean.
\<close>

theorem C9_exists_iff_get_id:
  "(fst (exists e serving_name sent) = Inr True \<longleftrightarrow>
      (\<exists>i. fst (get_id e serving_name sent) = Inr (Some i))) \<and>
   (fst (exists e serving_name sent) = Inr False \<longleftrightarrow>
      fst (get_id e serving_name sent) = Inr None) \<and>
   (\<forall>m. fst (get_id e serving_name sent) \<noteq> Inl (ServingNotFound m)) \<and>
   (\<forall>m. fst (exists e serving_name sent) \<noteq> Inl (ServingNotFound m)) \<and>
   exists e serving_name sent =
     (case get_id e serving_name sent of
        (r, sent') \<Rightarrow> (bind_err r (\<lambda>serving_id. Inr (serving_id \<noteq> None)), sent'))"
proof -
  have nf: "fst (get_id e serving_name sent) \<noteq> Inl (ServingNotFound m)" for m
    by (rule get_id_not_ServingNotFound)
  have ex: "fst (exists e serving_name sent) =
      bind_err (fst (get_id e serving_name sent)) (\<lambda>serving_id. Inr (serving_id \<noteq> None))"
    by (simp add: exists_without_handler split_def)
  show ?thesis
  proof (intro conjI allI)
    show "fst (exists e serving_name sent) = Inr True \<longleftrightarrow>
        (\<exists>i. fst (get_id e serving_name sent) = Inr (Some i))"
      unfolding ex by (cases "fst (get_id e serving_name sent)") (auto simp: bind_err_def)
    show "fst (exists e serving_name sent) = Inr False \<longleftrightarrow>
        fst (get_id e serving_name sent) = Inr None"
      unfolding ex by (cases "fst (get_id e serving_name sent)") (auto simp: bind_err_def)
    show "fst (get_id e serving_name sent) \<noteq> Inl (ServingNotFound m)" for m
      by (rule nf)
    show "fst (exists e serving_name sent) \<noteq> Inl (ServingNotFound m)" for m
      unfolding ex using nf [of m]
      by (cases "fst (get_id e serving_name sent)") (auto simp: bind_err_def)
    show "exists e serving_name sent =
        (case get_id e serving_name sent of
           (r, sent') \<Rightarrow> (bind_err r (\<lambda>serving_id. Inr (serving_id \<noteq> None)), sent'))"
      by (rule exists_without_handler)
  qed
qed

lemma get_all_ok_backend:
  "get_all (sample_env ok_backend) sent =
     (Inr [mnist, iris], sent @ [get_servings_request (sample_env ok_backend)])"
  by (simp add: get_all_def get_servings_rest_def send_request_def ok_backend_def
      parse_json_servings_def py_iter_def Serving_def py_getitem_def as_str_def as_id_def
      bind_err_def mnist_json_def iris_json_def mnist_def iris_def sample_env_defs)

lemma get_id_ok_backend_mnist:
  "fst (get_id (sample_env ok_backend) ''mnist'' []) = Inr (Some 7)"
  by (simp add: get_id_def get_all_ok_backend find_serving_with_name_def bind_err_def
      except_ServingNotFound_def mnist_def iris_def)

lemma get_id_ok_backend_cifar:
  "fst (get_id (sample_env ok_backend) ''cifar'' []) = Inr None"
  by (simp add: get_id_def get_all_ok_backend find_serving_with_name_def bind_err_def
      except_ServingNotFound_def mnist_def iris_def)

theorem C9_exists_iff_get_id_witness:
  "fst (exists (sample_env ok_backend) ''mnist'' []) = Inr True \<and>
   fst (get_id (sample_env ok_backend) ''mnist'' []) = Inr (Some 7) \<and>
   fst (exists (sample_env ok_backend) ''cifar'' []) = Inr False \<and>
   fst (get_id (sample_env ok_backend) ''cifar'' []) = Inr None"
proof -
  note found = C9_exists_iff_get_id [of "sample_env ok_backend" "''mnist''" "[]"]
  note missing = C9_exists_iff_get_id [of "sample_env ok_backend" "''cifar''" "[]"]
  have "fst (exists (sample_env ok_backend) ''mnist'' []) = Inr True"
    using found [THEN conjunct1] get_id_ok_backend_mnist by simp
  moreover have "fst (exists (sample_env ok_backend) ''cifar'' []) = Inr False"
    using missing [THEN conjunct2, THEN conjunct1] get_id_ok_backend_cifar by simp
  ultimately show ?thesis
    using get_id_ok_backend_mnist get_id_ok_backend_cifar by simp
qed

subsection \<open>The status check of the REST helpers\<close>

definition is_RestAPIError :: "error + 'a \<Rightarrow> bool" where
  "is_RestAPIError r = (case r of Inl (RestAPIError m) \<Rightarrow> True | _ \<Rightarrow> False)"

definition is_ValueError :: "error + 'a \<Rightarrow> bool" where
  "is_ValueError r = (case r of Inl (ValueError m) \<Rightarrow> True | _ \<Rightarrow> False)"

lemma is_RestAPIError_raise [simp]:
  "is_RestAPIError (Inl (raise_rest_error e resp response_object what args))"
  by (simp add: is_RestAPIError_def raise_rest_error_def split_def)

lemma is_RestAPIError_simps [simp]:
  "\<not> is_RestAPIError (Inr x)" "\<not> is_RestAPIError (Inl JSONDecodeError)"
  by (simp_all add: is_RestAPIError_def)




subsection \<open>Validation comes before the request that creates or updates\<close>

lemma is_ValueError_simps [simp]:
  "is_ValueError (Inl (ValueError m))" "\<not> is_ValueError (Inr x)"
  "\<not> is_ValueError (Inl (RestAPIError m))"
  by (simp_all add: is_ValueError_def)

lemma snd_get_servings_rest:
  "snd (get_servings_rest e sent) = sent @ [get_servings_request e]"
  by (simp add: get_servings_rest_def send_request_def split: option.splits)

lemma snd_get_id: "snd (get_id e serving_name sent) = sent @ [get_servings_request e]"
  using snd_get_servings_rest [of e sent]
  by (simp add: get_id_def get_all_def split_def)

lemma validate_raises_ValueError:
  "validate_user_serving_input e serving_name model_path model_version model_server kfserving
     batching_enabled topic_name num_partitions num_replicas instances \<noteq> Inr () \<Longrightarrow>
   is_ValueError (validate_user_serving_input e serving_name model_path model_version
     model_server kfserving batching_enabled topic_name num_partitions num_replicas instances)"
  unfolding validate_user_serving_input_def
  by (simp split: if_splits)

lemma validate_passes:
  assumes "validate_user_serving_input e serving_name model_path model_version model_server
     kfserving batching_enabled topic_name num_partitions num_replicas instances = Inr ()"
  shows "length serving_name \<le> 256" and "serving_name \<noteq> []"
    and "name_pattern_match serving_name"
    and "isinstance_int model_version" and "isinstance_int instances"
  using assms unfolding validate_user_serving_input_def
  by (simp_all split: if_splits)

text \<open>
  The names that the pattern matches: one or more characters of the class, or one or
  more characters of the class and then one line feed.
\<close>

lemma name_pattern_match_iff:
  "name_pattern_match s \<longleftrightarrow>
     (s \<noteq> [] \<and> (\<forall>c \<in> set s. alnum c)) \<or>
     (last s = CHR 0x0A \<and> butlast s \<noteq> [] \<and> (\<forall>c \<in> set (butlast s). alnum c))"
proof (cases "s = []")
  case True
  then show ?thesis by (simp add: name_pattern_match_def)
next
  case False
  have lf: "\<not> alnum (CHR 0x0A)"
    by (simp add: alnum_def)
  show ?thesis
  proof (cases "last s = CHR 0x0A")
    case True
    with False lf have "\<not> (\<forall>c \<in> set s. alnum c)"
      using last_in_set [of s] by auto
    with True False show ?thesis
      by (auto simp: name_pattern_match_def Let_def list_all_iff)
  next
    case no_lf: False
    with False show ?thesis
      by (auto simp: name_pattern_match_def Let_def list_all_iff)
  qed
qed

lemma invalid_input_fails_validation:
  assumes "(serving_name = [] \<or> 256 < length serving_name \<or> (\<exists>c \<in> set serving_name. \<not> alnum c)) \<and>
           \<not> (length serving_name \<le> 256 \<and> last serving_name = CHR 0x0A \<and>
              butlast serving_name \<noteq> [] \<and> (\<forall>c \<in> set (butlast serving_name). alnum c)) \<or>
           \<not> isinstance_int model_version \<or> \<not> isinstance_int instances"
  shows "is_ValueError (validate_user_serving_input e serving_name model_path model_version
     model_server kfserving batching_enabled topic_name num_partitions num_replicas instances)"
proof (rule validate_raises_ValueError, rule notI)
  assume ok: "validate_user_serving_input e serving_name model_path model_version model_server
     kfserving batching_enabled topic_name num_partitions num_replicas instances = Inr ()"
  note p = validate_passes [OF ok]
  from assms p(4,5)
  have bad: "serving_name = [] \<or> 256 < length serving_name \<or> (\<exists>c \<in> set serving_name. \<not> alnum c)"
    and slip: "\<not> (length serving_name \<le> 256 \<and> last serving_name = CHR 0x0A \<and>
              butlast serving_name \<noteq> [] \<and> (\<forall>c \<in> set (butlast serving_name). alnum c))"
    by auto
  from p(3) have "(serving_name \<noteq> [] \<and> (\<forall>c \<in> set serving_name. alnum c)) \<or>
      (last serving_name = CHR 0x0A \<and> butlast serving_name \<noteq> [] \<and>
       (\<forall>c \<in> set (butlast serving_name). alnum c))"
    by (simp add: name_pattern_match_iff)
  with bad slip p(1,2) show False
    by auto
qed

text \<open>
  C10, as stated, has \<open>create_or_update\<close> raise \<open>ValueError\<close> for every invalid name.
  \<open>create_or_update\<close> looks the id of the serving up before it validates: when the
  backend answers that request with 500, the empty name gets a \<open>RestAPIError\<close>.
\<close>

theorem C10_lookup_first_counterexample:
  "is_RestAPIError (fst (create_or_update (sample_env error_backend) '''' ''/Projects/demo/Models/mnist''
     (JInt 1) None False (JBool False) (JStr ''CREATE'') (JInt 1) (JInt 1) (JInt 1) [])) \<and>
   \<not> is_ValueError (fst (create_or_update (sample_env error_backend) '''' ''/Projects/demo/Models/mnist''
     (JInt 1) None False (JBool False) (JStr ''CREATE'') (JInt 1) (JInt 1) (JInt 1) []))"
  by (simp add: create_or_update_def get_id_def get_all_def get_servings_rest_def
      send_request_def error_backend_def sample_env_def bind_err_def except_ServingNotFound_def
      raise_rest_error_def is_RestAPIError_def is_ValueError_def)

text \<open>
  C10, amended. Let the serving name be empty, longer than 256 characters or hold a
  character outside \<open>[a-zA-Z0-9]\<close>, and let it not be a name of at most 256 characters
  made of one or more characters of \<open>[a-zA-Z0-9]\<close> and one line feed after them; or let
  the model version or the number of instances not be an instance of \<open>int\<close>, that is,
  neither an integer nor a boolean. Then the only request that \<open>create_or_update\<close> sends
  is the one that lists the servings, which is not a request to create or update; when
  the lookup of the id raises, \<open>create_or_update\<close> raises the same exception, and when it
  returns, \<open>create_or_update\<close> raises \<open>ValueError\<close>.
\<close>

theorem C10_invalid_input_sends_no_put:
  assumes "(serving_name = [] \<or> 256 < length serving_name \<or> (\<exists>c \<in> set serving_name. \<not> alnum c)) \<and>
           \<not> (length serving_name \<le> 256 \<and> last serving_name = CHR 0x0A \<and>
              butlast serving_name \<noteq> [] \<and> (\<forall>c \<in> set (butlast serving_name). alnum c)) \<or>
           \<not> isinstance_int model_version \<or> \<not> isinstance_int instances"
  shows "snd (create_or_update e serving_name artifact_path model_version model_server kfserving
            batching_enabled topic_name num_partitions num_replicas instances sent) =
           sent @ [get_servings_request e] \<and>
         req_data (get_servings_request e) = None \<and>
         req_data (create_or_update_serving_request e serving_name' model_path' model_version'
            model_server' kfserving' batching_enabled' topic_name' num_partitions' num_replicas'
            serving_id' instances') \<noteq> None \<and>
         (case fst (get_id e serving_name sent) of
            Inl err \<Rightarrow>
              fst (create_or_update e serving_name artifact_path model_version model_server
                kfserving batching_enabled topic_name num_partitions num_replicas instances sent) =
              Inl err
          | Inr serving_id \<Rightarrow>
              is_ValueError (fst (create_or_update e serving_name artifact_path model_version
                model_server kfserving batching_enabled topic_name num_partitions num_replicas
                instances sent)))"
proof -
  let ?path = "expand_path e artifact_path"
  let ?server = "case model_server of None \<Rightarrow> detect_model_server e ?path | Some m \<Rightarrow> m"
  let ?v = "validate_user_serving_input e serving_name ?path model_version ?server kfserving
     batching_enabled topic_name num_partitions num_replicas instances"
  have v: "is_ValueError ?v"
    using assms by (rule invalid_input_fails_validation)
  then obtain m where m: "?v = Inl (ValueError m)"
    by (auto simp: is_ValueError_def split: sum.splits error.splits)
  obtain r sent' where g: "get_id e serving_name sent = (r, sent')"
    by (cases "get_id e serving_name sent")
  with snd_get_id [of e serving_name sent] have s: "sent' = sent @ [get_servings_request e]"
    by simp
  have c: "create_or_update e serving_name artifact_path model_version model_server kfserving
      batching_enabled topic_name num_partitions num_replicas instances sent =
      (case r of Inl err \<Rightarrow> Inl err | Inr serving_id \<Rightarrow> Inl (ValueError m), sent')"
    using g m by (simp add: create_or_update_def Let_def split: sum.splits)
  show ?thesis
    unfolding c g
    by (simp add: s get_servings_request_def create_or_update_serving_request_def Let_def
        split: sum.splits)
qed

text \<open>A name with a blank in it that ends in a line feed.\<close>

definition my_model_lf :: string where
  "my_model_lf = ''my model'' @ [CHR 0x0A]"

lemma get_id_ok_backend_my_model:
  "fst (get_id (sample_env ok_backend) my_model_lf []) = Inr None"
  by (simp add: get_id_def get_all_ok_backend find_serving_with_name_def bind_err_def
      except_ServingNotFound_def mnist_def iris_def my_model_lf_def)

theorem C10_invalid_input_sends_no_put_witness:
  "snd (create_or_update (sample_env ok_backend) my_model_lf ''/Projects/demo/Models/mnist''
     (JInt 1) None False (JBool False) (JStr ''CREATE'') (JInt 1) (JInt 1) (JInt 1) []) =
     [\<lparr>req_method = ''GET'', req_url = ''/hopsworks-api/api/project/119/serving/'',
       req_data = None, req_headers = None\<rparr>] \<and>
   is_ValueError (fst (create_or_update (sample_env ok_backend) my_model_lf
     ''/Projects/demo/Models/mnist'' (JInt 1) None False (JBool False) (JStr ''CREATE'')
     (JInt 1) (JInt 1) (JInt 1) []))"
proof -
  have bad: "(my_model_lf = [] \<or> 256 < length my_model_lf \<or>
              (\<exists>c \<in> set my_model_lf. \<not> alnum c)) \<and>
             \<not> (length my_model_lf \<le> 256 \<and> last my_model_lf = CHR 0x0A \<and>
                butlast my_model_lf \<noteq> [] \<and> (\<forall>c \<in> set (butlast my_model_lf). alnum c)) \<or>
             \<not> isinstance_int (JInt 1) \<or> \<not> isinstance_int (JInt 1)"
    by (simp add: my_model_lf_def alnum_def)
  from C10_invalid_input_sends_no_put
    [OF bad, of "sample_env ok_backend" "''/Projects/demo/Models/mnist''" None False
       "JBool False" "JStr ''CREATE''" "JInt 1" "JInt 1" "[]"]
    get_id_ok_backend_my_model
  show ?thesis
    by (simp add: get_servings_request_def serving_resource_url_def
        HOPSWORKS_REST_RESOURCE_def sample_env_defs)
qed

text \<open>
  The names left out of C10 as amended are those that pass the validation although
  their last character is not in \<open>[a-zA-Z0-9]\<close>: \<open>$\<close> matches before a final line feed.
  A boolean passes where an integer is asked for, being an instance of \<open>int\<close>.
\<close>

lemma final_line_feed_passes_validation:
  "validate_user_serving_input (sample_env ok_backend) (''mnist'' @ [CHR 0x0A])
     ''/Projects/demo/Models/mnist'' (JInt 1) ''TENSORFLOW_SERVING'' False (JBool False)
     (JStr ''CREATE'') (JInt 1) (JInt 1) (JInt 1) = Inr ()"
  by (simp add: validate_user_serving_input_def name_pattern_match_def alnum_def
      sample_env_defs)

lemma boolean_model_version_passes_validation:
  "validate_user_serving_input (sample_env ok_backend) ''mnist''
     ''/Projects/demo/Models/mnist'' (JBool True) ''TENSORFLOW_SERVING'' False (JBool False)
     (JStr ''CREATE'') (JInt 1) (JInt 1) (JInt 1) = Inr ()"
  by (simp add: validate_user_serving_input_def name_pattern_match_def alnum_def
      sample_env_defs)

end
